theory Spec2Isabelle
  imports Complex_Main
begin

section \<open>Data model of BinanceMarketData.ts\<close>

text \<open>
  JavaScript numbers are modelled as follows. Prices, changes and volumes are real
  numbers (the rounding of IEEE doubles is left out of the model). Millisecond
  timestamps and counts are integers. A number that may be \<open>NaN\<close> has the type
  \<open>'a number\<close>: the timestamp of a candle, which the code may compute through a
  non-numeric operand, and the numeric fields of a quote, which \<open>getTicker\<close> reads
  with \<open>parseFloat\<close> from whatever the remote service sent. The symbol of a quote
  is \<open>None\<close> when it is \<open>undefined\<close>.
\<close>

datatype 'a number = Num 'a | NaN

record CandleData =
  timestamp :: "int number"
  open_price :: real
  high :: real
  low :: real
  close :: real
  volume :: real

record TickerData =
  symbol :: "string option"
  price :: "real number"
  change :: "real number"
  changePercent :: "real number"
  ticker_volume :: "real number"
  ticker_timestamp :: int

subsection \<open>Strings\<close>

text \<open>
  \<open>String.prototype.toUpperCase\<close>, on the ASCII letters; every other character is
  left as it is.
\<close>

definition upper_char :: "char \<Rightarrow> char" where
  "upper_char c =
     (case map_of (zip ''abcdefghijklmnopqrstuvwxyz'' ''ABCDEFGHIJKLMNOPQRSTUVWXYZ'') c of
        Some u \<Rightarrow> u
      | None \<Rightarrow> c)"

definition toUpperCase :: "string \<Rightarrow> string" where
  "toUpperCase s = map upper_char s"

text \<open>\<open>String.prototype.includes\<close>: the pattern occurs somewhere in the string.\<close>

fun includes_str :: "string \<Rightarrow> string \<Rightarrow> bool" where
  "includes_str [] p = (p = [])"
| "includes_str (c # cs) p = (take (length p) (c # cs) = p \<or> includes_str cs p)"

subsection \<open>Object literals used as lookup tables\<close>

text \<open>
  A property read \<open>table[key]\<close> on an object literal finds the literal's own
  properties and, failing that, the properties every object inherits from
  \<open>Object.prototype\<close>; only then is it \<open>undefined\<close>. The inherited values are
  functions (and, for \<open>__proto__\<close>, the prototype object): truthy, and not numbers.
\<close>

definition objectPrototypeKeys :: "string list" where
  "objectPrototypeKeys =
     [''constructor'', ''__defineGetter__'', ''__defineSetter__'', ''hasOwnProperty'',
      ''__lookupGetter__'', ''__lookupSetter__'', ''isPrototypeOf'',
      ''propertyIsEnumerable'', ''toString'', ''valueOf'', ''__proto__'',
      ''toLocaleString'']"

datatype 'a jsvalue = Own 'a | Inherited | Undefined

definition lookup :: "(string \<times> 'a) list \<Rightarrow> string \<Rightarrow> 'a jsvalue" where
  "lookup table key =
     (case map_of table key of
        Some v \<Rightarrow> Own v
      | None \<Rightarrow> if key \<in> set objectPrototypeKeys then Inherited else Undefined)"

text \<open>
  \<open>table[key] || d\<close>: the default replaces \<open>undefined\<close> and a zero own value; an
  inherited object is truthy and is what the expression yields.
\<close>

definition or_default :: "'a::zero jsvalue \<Rightarrow> 'a \<Rightarrow> 'a jsvalue" where
  "or_default v d =
     (case v of
        Own x \<Rightarrow> if x = 0 then Own d else Own x
      | Inherited \<Rightarrow> Inherited
      | Undefined \<Rightarrow> Own d)"

text \<open>
  The numeric value of such a result inside an arithmetic expression: an inherited
  function or object converts to \<open>NaN\<close>.
\<close>

fun toNumber :: "int jsvalue \<Rightarrow> int number" where
  "toNumber (Own n) = Num n"
| "toNumber Inherited = NaN"
| "toNumber Undefined = NaN"

fun times :: "int number \<Rightarrow> int number \<Rightarrow> int number" where
  "times (Num a) (Num b) = Num (a * b)"
| "times _ _ = NaN"

fun minus_number :: "int number \<Rightarrow> int number \<Rightarrow> int number" where
  "minus_number (Num a) (Num b) = Num (a - b)"
| "minus_number _ _ = NaN"

subsection \<open>Timeframes\<close>

definition timeframeMap :: "(string \<times> int) list" where
  "timeframeMap =
     [(''1m'', 60 * 1000),
      (''5m'', 5 * 60 * 1000),
      (''15m'', 15 * 60 * 1000),
      (''30m'', 30 * 60 * 1000),
      (''1h'', 60 * 60 * 1000),
      (''4h'', 4 * 60 * 60 * 1000),
      (''1d'', 24 * 60 * 60 * 1000)]"

definition getTimeframeInMs :: "string \<Rightarrow> int jsvalue" where
  "getTimeframeInMs timeframe = or_default (lookup timeframeMap timeframe) (60 * 60 * 1000)"

definition intervalMap :: "(string \<times> string) list" where
  "intervalMap =
     [(''1m'', ''1m''),
      (''5m'', ''5m''),
      (''15m'', ''15m''),
      (''30m'', ''30m''),
      (''1h'', ''1h''),
      (''4h'', ''4h''),
      (''1d'', ''1d'')]"

text \<open>The default also replaces the empty string, which is falsy.\<close>

definition convertTimeframeToBinanceInterval :: "string \<Rightarrow> string jsvalue" where
  "convertTimeframeToBinanceInterval timeframe =
     (case lookup intervalMap timeframe of
        Own v \<Rightarrow> if v = [] then Own ''1h'' else Own v
      | Inherited \<Rightarrow> Inherited
      | Undefined \<Rightarrow> Own ''1h'')"

subsection \<open>Price tables\<close>

text \<open>
  The price tables are read with an upper-cased key only. No name of
  \<open>Object.prototype\<close> is upper case, so these reads never reach an inherited
  property (lemma \<open>toUpperCase_not_inherited\<close> below) and yield a number.
\<close>

definition startingPrices :: "(string \<times> real) list" where
  "startingPrices =
     [(''BTCUSDT'', 42500),
      (''ETHUSDT'', 2650),
      (''ADAUSDT'', 485 / 1000),
      (''SOLUSDT'', 855 / 10),
      (''DOTUSDT'', 785 / 100)]"

definition fallbackPrices :: "(string \<times> real) list" where
  "fallbackPrices =
     [(''BTCUSDT'', 42500),
      (''ETHUSDT'', 2650),
      (''ADAUSDT'', 485 / 1000),
      (''DOTUSDT'', 785 / 100)]"

definition price_or :: "(string \<times> real) list \<Rightarrow> string \<Rightarrow> real \<Rightarrow> real" where
  "price_or table key d =
     (case map_of table key of
        Some v \<Rightarrow> if v = 0 then d else v
      | None \<Rightarrow> d)"

section \<open>The fallback history generator\<close>

text \<open>
  The environment of \<open>generateFallbackHistoricalData\<close>: \<open>rnd k\<close> is the value of
  the \<open>k\<close>-th call of \<open>Math.random()\<close>, \<open>hrs t\<close> is
  \<open>new Date(t).getHours()\<close> in the host's time zone, and \<open>now\<close> is
  \<open>Date.now()\<close>. The count \<open>limit\<close> is an integer: a fractional or infinite
  count is outside the model.
\<close>

record environment =
  rnd :: "nat \<Rightarrow> real"
  hrs :: "int \<Rightarrow> int"

definition random_ok :: "environment \<Rightarrow> bool" where
  "random_ok e = (\<forall>k. 0 \<le> rnd e k \<and> rnd e k < 1)"

definition volatilityMultiplier :: "environment \<Rightarrow> int number \<Rightarrow> real" where
  "volatilityMultiplier e t =
     (case t of
        Num ms \<Rightarrow> if 9 \<le> hrs e ms \<and> hrs e ms \<le> 16 then 15 / 10 else 1
      | NaN \<Rightarrow> 1)"

text \<open>
  One round of the loop: the candle pushed for loop index \<open>i\<close>, drawn from the
  random values \<open>k\<close> to \<open>k + 3\<close>, at the running price \<open>currentPrice\<close>.
\<close>

definition candle_at ::
  "environment \<Rightarrow> string \<Rightarrow> int \<Rightarrow> int jsvalue \<Rightarrow> int \<Rightarrow> nat \<Rightarrow> real \<Rightarrow> CandleData" where
  "candle_at e symb now timeframeMs i k currentPrice =
     (let ts = minus_number (Num now) (times (Num i) (toNumber timeframeMs));
          volatility = (if includes_str symb ''BTC'' then 8 / 1000 else 12 / 1000);
          mult = volatilityMultiplier e ts;
          chg = (rnd e k - 1 / 2) * currentPrice * volatility * mult;
          opn = currentPrice;
          cls = max (currentPrice * (1 / 10)) (currentPrice + chg);
          direction = (if cls > opn then 1 else - 1 :: real);
          highExtra = rnd e (k + 1) * currentPrice * (5 / 1000) * \<bar>direction\<bar>;
          lowExtra = rnd e (k + 2) * currentPrice * (5 / 1000) * \<bar>direction\<bar>;
          hi = max opn cls + highExtra;
          lo = min opn cls - lowExtra;
          vol = 50 + rnd e (k + 3) * 200
      in \<lparr>timestamp = ts, open_price = opn, high = hi, low = lo, close = cls,
          volume = vol\<rparr>)"

text \<open>The loop \<open>for (let i = limit - 1; i >= 0; i--)\<close>, pushing onto \<open>data\<close>.\<close>

function gen_loop ::
  "environment \<Rightarrow> string \<Rightarrow> int \<Rightarrow> int jsvalue \<Rightarrow> int \<Rightarrow> nat \<Rightarrow> real \<Rightarrow> CandleData list
     \<Rightarrow> CandleData list" where
  "gen_loop e symb now timeframeMs i k currentPrice data =
     (if i \<ge> 0 then
        (let c = candle_at e symb now timeframeMs i k currentPrice
         in gen_loop e symb now timeframeMs (i - 1) (k + 4) (close c) (data @ [c]))
      else data)"
  by pat_completeness auto
termination
  by (relation "measure (\<lambda>(e, symb, now, timeframeMs, i, k, currentPrice, data). nat (i + 1))")
    auto

declare gen_loop.simps [simp del]

definition generateFallbackHistoricalData ::
  "environment \<Rightarrow> int \<Rightarrow> string \<Rightarrow> string \<Rightarrow> int \<Rightarrow> CandleData list" where
  "generateFallbackHistoricalData e now symb timeframe limit =
     gen_loop e symb now (getTimeframeInMs timeframe) (limit - 1) 0
       (price_or startingPrices (toUpperCase symb) 100) []"

text \<open>The Candle invariant of the data model.\<close>

definition ohlc_ok :: "CandleData \<Rightarrow> bool" where
  "ohlc_ok c =
     (low c \<le> min (open_price c) (close c) \<and> max (open_price c) (close c) \<le> high c)"

text \<open>
  A price walk that starts at \<open>p\<close>: the first candle opens at \<open>p\<close> and every
  later one opens where its predecessor closed.
\<close>

fun linked :: "real \<Rightarrow> CandleData list \<Rightarrow> bool" where
  "linked p [] = True"
| "linked p (c # cs) = (open_price c = p \<and> linked (close c) cs)"

section \<open>Replies of the remote service\<close>

text \<open>
  Every accessor runs \<open>fetch\<close>, then \<open>response.json()\<close>, then tests
  \<open>data.code\<close>. What the remote service answers is an input of the model.
  \<open>FetchFails\<close>: \<open>fetch\<close> rejects (no network, DNS, connection refused).
  \<open>Response ok b\<close>: \<open>fetch\<close> resolves with a response whose \<open>response.ok\<close>
  is \<open>ok\<close> (false for a non-success status) and whose body is \<open>b\<close>:
  \<^item> \<open>NotJson\<close>: \<open>response.json()\<close> rejects;
  \<^item> \<open>JsonNull\<close>: the body is \<open>null\<close>, so reading \<open>data.code\<close> throws;
  \<^item> \<open>ErrorEnvelope msg\<close>: the body has a truthy \<open>code\<close> and the message \<open>msg\<close>;
  \<^item> \<open>Payload x\<close>: any other body, as the fields \<open>x\<close> the accessor reads from it.
\<close>

datatype 'a body = NotJson | JsonNull | ErrorEnvelope string | Payload 'a

datatype 'a reply = FetchFails | Response bool "'a body"

datatype error =
    NetworkError
  | SyntaxError
  | TypeError
  | ApiError string
  | NoHistoricalData

text \<open>
  The three steps that open every accessor: what they throw, or the body they hand on.
  No accessor reads \<open>response.ok\<close>.
\<close>

fun receive :: "'a reply \<Rightarrow> error + 'a" where
  "receive FetchFails = Inl NetworkError"
| "receive (Response ok NotJson) = Inl SyntaxError"
| "receive (Response ok JsonNull) = Inl TypeError"
| "receive (Response ok (ErrorEnvelope msg)) = Inl (ApiError msg)"
| "receive (Response ok (Payload x)) = Inr x"

text \<open>The replies on which these three steps throw.\<close>

fun is_failure :: "'a reply \<Rightarrow> bool" where
  "is_failure (Response ok (Payload x)) = False"
| "is_failure r = True"

text \<open>
  The body of a 24-hour ticker as \<open>getTicker\<close> reads it: \<open>data.symbol\<close>
  (\<open>None\<close> when the body has none) and the value of \<open>parseFloat\<close> on each numeric
  field, which is \<open>NaN\<close> for a field that is missing or is not a number. In the other
  bodies the numeric fields are taken as parsed: there, a field that \<open>parseFloat\<close>
  cannot read is outside the model.
\<close>

record ticker_body =
  body_symbol :: "string option"
  lastPrice :: "real number"
  priceChange :: "real number"
  priceChangePercent :: "real number"
  body_volume :: "real number"

text \<open>
  A field on which the accessor calls an array method is \<open>None\<close> when the body has
  no array there: the call throws a \<open>TypeError\<close>.
\<close>

record depth_body =
  body_bids :: "(real \<times> real) list option"
  body_asks :: "(real \<times> real) list option"

record MarketDepth =
  depth_symbol :: string
  bids :: "(real \<times> real) list"
  asks :: "(real \<times> real) list"
  depth_timestamp :: int

section \<open>The service object\<close>

text \<open>
  A \<open>BehaviorSubject\<close> is an object with identity: the maps hold references, and so
  does the closure of each polling timer. The subjects created so far are the entries of
  \<open>tickerValues\<close> and \<open>candleValues\<close>, each holding the subject's current value; a
  reference is an index, and \<open>new BehaviorSubject(v)\<close> appends. \<open>timers\<close> lists the
  \<open>setInterval\<close> timers that are running: the code keeps no handle of them.
\<close>

datatype timer =
    TickerTimer string nat nat
  | CandleTimer string string nat nat

record state =
  isInitialized :: bool
  tickerSubjects :: "string \<rightharpoonup> nat"
  candleSubjects :: "string \<rightharpoonup> nat"
  tickerValues :: "TickerData list"
  candleValues :: "CandleData list list"
  timers :: "timer list"

definition updateInterval :: nat where
  "updateInterval = 2000"

definition initial :: state where
  "initial =
     \<lparr>isInitialized = False, tickerSubjects = Map.empty, candleSubjects = Map.empty,
      tickerValues = [], candleValues = [], timers = []\<rparr>"

text \<open>The current value of the subject behind a reference, which a new subscriber receives first.\<close>

definition currentValue :: "'a list \<Rightarrow> nat \<Rightarrow> 'a option" where
  "currentValue values r = (if r < length values then Some (values ! r) else None)"

subsection \<open>Startup\<close>

definition fallbackData :: "(string \<times> real \<times> real \<times> real) list" where
  "fallbackData =
     [(''BTCUSDT'', 42500, 1250, 302 / 100),
      (''ETHUSDT'', 2650, - 45, - 167 / 100),
      (''ADAUSDT'', 485 / 1000, 12 / 1000, 254 / 100)]"

definition seed :: "int \<Rightarrow> state \<Rightarrow> string \<times> real \<times> real \<times> real \<Rightarrow> state" where
  "seed now s d =
     (case d of (dsymbol, dprice, dchange, dchangePercent) \<Rightarrow>
        let ticker = \<lparr>symbol = Some dsymbol, price = Num dprice, change = Num dchange,
                       changePercent = Num dchangePercent, ticker_volume = Num 125000,
                       ticker_timestamp = now\<rparr>
        in if tickerSubjects s dsymbol = None
           then s\<lparr>tickerSubjects := (tickerSubjects s)(dsymbol \<mapsto> length (tickerValues s)),
                  tickerValues := tickerValues s @ [ticker]\<rparr>
           else s)"

definition initializeFallbackData :: "state \<Rightarrow> int \<Rightarrow> state" where
  "initializeFallbackData s now = foldl (seed now) s fallbackData"

text \<open>The outcome of the one \<open>ping\<close> request.\<close>

datatype probe = ResponseOk | ResponseNotOk | Rejected

definition initializeConnection :: "state \<Rightarrow> probe \<Rightarrow> int \<Rightarrow> state" where
  "initializeConnection s p now =
     (case p of
        ResponseOk \<Rightarrow> s\<lparr>isInitialized := True\<rparr>
      | ResponseNotOk \<Rightarrow> initializeFallbackData s now
      | Rejected \<Rightarrow> initializeFallbackData s now)"

subsection \<open>Accessors\<close>

text \<open>
  The cache test of \<open>getCurrentPrice\<close>: the subject registered under the key, when
  its current value has a price above zero (\<open>NaN > 0\<close> is false).
\<close>

definition cachedPrice :: "state \<Rightarrow> string \<Rightarrow> real option" where
  "cachedPrice s key =
     (case tickerSubjects s key of
        None \<Rightarrow> None
      | Some subject \<Rightarrow>
          (case currentValue (tickerValues s) subject of
             None \<Rightarrow> None
           | Some t \<Rightarrow>
               (case price t of
                  Num p \<Rightarrow> if p > 0 then Some p else None
                | NaN \<Rightarrow> None)))"

definition getCurrentPrice :: "state \<Rightarrow> string \<Rightarrow> real reply \<Rightarrow> error + real" where
  "getCurrentPrice s symb r =
     (case cachedPrice s (toUpperCase symb) of
        Some p \<Rightarrow> Inr p
      | None \<Rightarrow>
          if \<not> isInitialized s then Inr (price_or fallbackPrices (toUpperCase symb) 100)
          else
            (case receive r of
               Inr p \<Rightarrow> Inr p
             | Inl err \<Rightarrow> Inr (price_or fallbackPrices (toUpperCase symb) 100)))"

definition getTicker :: "string \<Rightarrow> ticker_body reply \<Rightarrow> int \<Rightarrow> error + TickerData" where
  "getTicker symb r now =
     (case receive r of
        Inl err \<Rightarrow> Inl err
      | Inr d \<Rightarrow>
          Inr \<lparr>symbol = body_symbol d, price = lastPrice d, change = priceChange d,
               changePercent = priceChangePercent d, ticker_volume = body_volume d,
               ticker_timestamp = now\<rparr>)"

text \<open>
  The symbol, the interval and the limit of \<open>getKlines\<close> go into the request only;
  the remote service's answer to that request is the argument \<open>r\<close>.
\<close>

definition getKlines ::
  "string \<Rightarrow> string jsvalue \<Rightarrow> int \<Rightarrow> CandleData list option reply
     \<Rightarrow> error + CandleData list" where
  "getKlines symb interval limit r =
     (case receive r of
        Inl err \<Rightarrow> Inl err
      | Inr None \<Rightarrow> Inl TypeError
      | Inr (Some klines) \<Rightarrow> Inr klines)"

definition getHistoricalData ::
  "state \<Rightarrow> environment \<Rightarrow> int \<Rightarrow> string \<Rightarrow> string \<Rightarrow> int \<Rightarrow> CandleData list option reply
     \<Rightarrow> error + CandleData list" where
  "getHistoricalData s e now symb timeframe limit r =
     (if \<not> isInitialized s then Inr (generateFallbackHistoricalData e now symb timeframe limit)
      else
        (case (case getKlines symb (convertTimeframeToBinanceInterval timeframe) limit r of
                 Inl err \<Rightarrow> Inl err
               | Inr candles \<Rightarrow> if length candles = 0 then Inl NoHistoricalData else Inr candles)
         of
           Inr candles \<Rightarrow> Inr candles
         | Inl err \<Rightarrow> Inr (generateFallbackHistoricalData e now symb timeframe limit)))"

definition getOrderBook :: "string \<Rightarrow> int \<Rightarrow> depth_body reply \<Rightarrow> int \<Rightarrow> error + MarketDepth" where
  "getOrderBook symb limit r now =
     (case receive r of
        Inl err \<Rightarrow> Inl err
      | Inr d \<Rightarrow>
          (case body_bids d of
             None \<Rightarrow> Inl TypeError
           | Some bs \<Rightarrow>
               (case body_asks d of
                  None \<Rightarrow> Inl TypeError
                | Some as \<Rightarrow>
                    Inr \<lparr>depth_symbol = toUpperCase symb, bids = bs, asks = as,
                         depth_timestamp = now\<rparr>)))"

definition getSymbols :: "(string \<times> string) list option reply \<Rightarrow> error + string list" where
  "getSymbols r =
     (case receive r of
        Inl err \<Rightarrow> Inl err
      | Inr None \<Rightarrow> Inl TypeError
      | Inr (Some symbols) \<Rightarrow>
          Inr (map fst (filter (\<lambda>entry. snd entry = ''TRADING'') symbols)))"

datatype side = LONG | SHORT

text \<open>
  \<open>pnlPercent\<close> divides by \<open>entryPrice * quantity\<close>; when that is zero the
  JavaScript result is an infinity or \<open>NaN\<close>, here \<open>None\<close>.
\<close>

record PnL =
  pnl :: real
  pnlPercent :: "real option"
  currentPrice :: real

definition calculatePnL ::
  "state \<Rightarrow> string \<Rightarrow> side \<Rightarrow> real \<Rightarrow> real \<Rightarrow> real reply \<Rightarrow> error + PnL" where
  "calculatePnL s symb sd entryPrice quantity r =
     (case getCurrentPrice s symb r of
        Inl err \<Rightarrow> Inl err
      | Inr cur \<Rightarrow>
          let p = (case sd of
                     LONG \<Rightarrow> (cur - entryPrice) * quantity
                   | SHORT \<Rightarrow> (entryPrice - cur) * quantity)
          in Inr \<lparr>pnl = p,
                  pnlPercent =
                    (if entryPrice * quantity = 0 then None
                     else Some ((p / (entryPrice * quantity)) * 100)),
                  currentPrice = cur\<rparr>)"

subsection \<open>Subscriptions\<close>

definition placeholder :: "string \<Rightarrow> int \<Rightarrow> TickerData" where
  "placeholder key now =
     \<lparr>symbol = Some key, price = Num 0, change = Num 0, changePercent = Num 0,
      ticker_volume = Num 0, ticker_timestamp = now\<rparr>"

text \<open>
  Both subscribe operations return the new state and the reference of the subject whose
  \<open>asObservable()\<close> the caller gets.
\<close>

definition subscribeToTicker :: "state \<Rightarrow> string \<Rightarrow> int \<Rightarrow> state \<times> nat" where
  "subscribeToTicker s symb now =
     (let key = toUpperCase symb
      in case tickerSubjects s key of
           None \<Rightarrow>
             (let subject = length (tickerValues s)
              in (s\<lparr>tickerValues := tickerValues s @ [placeholder key now],
                    tickerSubjects := (tickerSubjects s)(key \<mapsto> subject),
                    timers := timers s @ [TickerTimer symb subject updateInterval]\<rparr>,
                  subject))
         | Some subject \<Rightarrow> (s, subject))"

definition subscribeToCandles :: "state \<Rightarrow> string \<Rightarrow> string \<Rightarrow> state \<times> nat" where
  "subscribeToCandles s symb interval =
     (let key = toUpperCase symb @ ''_'' @ interval
      in case candleSubjects s key of
           None \<Rightarrow>
             (let subject = length (candleValues s)
              in (s\<lparr>candleValues := candleValues s @ [[]],
                    candleSubjects := (candleSubjects s)(key \<mapsto> subject),
                    timers := timers s @ [CandleTimer symb interval subject (updateInterval * 5)]\<rparr>,
                  subject))
         | Some subject \<Rightarrow> (s, subject))"

definition cleanup :: "state \<Rightarrow> state" where
  "cleanup s = s\<lparr>tickerSubjects := Map.empty, candleSubjects := Map.empty\<rparr>"

text \<open>
  One round of a timer: the callback fetches and, on success, publishes to the subject
  it closed over; on failure it keeps the last value.
\<close>

definition fireTickerTimer :: "state \<Rightarrow> timer \<Rightarrow> ticker_body reply \<Rightarrow> int \<Rightarrow> state" where
  "fireTickerTimer s t r now =
     (case t of
        TickerTimer symb subject period \<Rightarrow>
          (case getTicker symb r now of
             Inr ticker \<Rightarrow> s\<lparr>tickerValues := (tickerValues s)[subject := ticker]\<rparr>
           | Inl err \<Rightarrow> s)
      | CandleTimer symb interval subject period \<Rightarrow> s)"

definition fireCandleTimer :: "state \<Rightarrow> timer \<Rightarrow> CandleData list option reply \<Rightarrow> state" where
  "fireCandleTimer s t r =
     (case t of
        CandleTimer symb interval subject period \<Rightarrow>
          (case getKlines symb (Own interval) 100 r of
             Inr candles \<Rightarrow> s\<lparr>candleValues := (candleValues s)[subject := candles]\<rparr>
           | Inl err \<Rightarrow> s)
      | TickerTimer symb subject period \<Rightarrow> s)"

text \<open>
  The key under which a timer's subscription was registered; ticker and candle keys
  live in different maps.
\<close>

datatype key = TickerKey string | CandleKey string

fun timer_key :: "timer \<Rightarrow> key" where
  "timer_key (TickerTimer symb subject period) = TickerKey (toUpperCase symb)"
| "timer_key (CandleTimer symb interval subject period) =
     CandleKey (toUpperCase symb @ ''_'' @ interval)"

definition timers_of :: "state \<Rightarrow> key \<Rightarrow> timer list" where
  "timers_of s k = filter (\<lambda>t. timer_key t = k) (timers s)"

text \<open>
  What can happen to the service after its construction: calls of its public
  operations, and rounds of the timers that are running (the \<open>n\<close>-th of \<open>timers\<close>).
\<close>

datatype event =
    SubscribeToTicker string int
  | SubscribeToCandles string string
  | Cleanup
  | TickerRound nat "ticker_body reply" int
  | CandleRound nat "CandleData list option reply"

fun step :: "state \<Rightarrow> event \<Rightarrow> state" where
  "step s (SubscribeToTicker symb now) = fst (subscribeToTicker s symb now)"
| "step s (SubscribeToCandles symb interval) = fst (subscribeToCandles s symb interval)"
| "step s Cleanup = cleanup s"
| "step s (TickerRound n r now) =
     (if n < length (timers s) then fireTickerTimer s (timers s ! n) r now else s)"
| "step s (CandleRound n r) =
     (if n < length (timers s) then fireCandleTimer s (timers s ! n) r else s)"

definition run :: "state \<Rightarrow> event list \<Rightarrow> state" where
  "run s evs = foldl step s evs"

fun is_cleanup :: "event \<Rightarrow> bool" where
  "is_cleanup Cleanup = True"
| "is_cleanup _ = False"

subsection \<open>Invariants of the subscriptions\<close>

text \<open>A key is registered when its map holds a subject for it.\<close>

fun registered :: "state \<Rightarrow> key \<Rightarrow> bool" where
  "registered s (TickerKey k) = (tickerSubjects s k \<noteq> None)"
| "registered s (CandleKey k) = (candleSubjects s k \<noteq> None)"

text \<open>No two timers have the same key, and every timer's key is registered.\<close>

definition timers_registered :: "state \<Rightarrow> bool" where
  "timers_registered s =
     (distinct (map timer_key (timers s))
      \<and> list_all (\<lambda>t. registered s (timer_key t)) (timers s))"






section \<open>A sample environment\<close>

text \<open>
  A host whose clock is on UTC and whose random generator alternates between
  \<open>1/4\<close> and \<open>3/4\<close>; used to run the definitions on concrete inputs.
\<close>

definition utc_env :: environment where
  "utc_env =
     \<lparr>rnd = (\<lambda>k. if even k then 1 / 4 else 3 / 4),
      hrs = (\<lambda>t. (t div 3600000) mod 24)\<rparr>"

section \<open>Properties of the generator\<close>

subsection \<open>One candle\<close>

lemma abs_direction: "\<bar>(if b then 1 else - 1 :: real)\<bar> = 1"
  by simp

lemma candle_at_open: "open_price (candle_at e symb now tf i k p) = p"
  by (simp add: candle_at_def Let_def)

lemma candle_at_close:
  "close (candle_at e symb now tf i k p) \<ge> p * (1 / 10)"
  by (simp add: candle_at_def Let_def split del: if_split)

lemma candle_at_close_pos: "0 < p \<Longrightarrow> 0 < close (candle_at e symb now tf i k p)"
  using candle_at_close [of p e symb now tf i k] by simp

lemma candle_at_timestamp:
  "timestamp (candle_at e symb now tf i k p) =
     minus_number (Num now) (times (Num i) (toNumber tf))"
  by (simp add: candle_at_def Let_def)

lemma candle_at_high:
  "high (candle_at e symb now tf i k p) =
     max (open_price (candle_at e symb now tf i k p)) (close (candle_at e symb now tf i k p))
       + rnd e (k + 1) * p * (5 / 1000)"
  by (simp add: candle_at_def Let_def abs_direction split del: if_split)

lemma candle_at_low:
  "low (candle_at e symb now tf i k p) =
     min (open_price (candle_at e symb now tf i k p)) (close (candle_at e symb now tf i k p))
       - rnd e (k + 2) * p * (5 / 1000)"
  by (simp add: candle_at_def Let_def abs_direction split del: if_split)

lemma candle_at_ohlc:
  assumes "random_ok e" "0 < p"
  shows "ohlc_ok (candle_at e symb now tf i k p)"
proof -
  have "0 \<le> rnd e (k + 1) * p * (5 / 1000)" "0 \<le> rnd e (k + 2) * p * (5 / 1000)"
    using assms by (simp_all add: random_ok_def)
  then show ?thesis
    unfolding ohlc_ok_def candle_at_high candle_at_low by linarith
qed

lemma gen_loop_step:
  "0 \<le> i \<Longrightarrow> gen_loop e symb now tf i k p data =
     gen_loop e symb now tf (i - 1) (k + 4) (close (candle_at e symb now tf i k p))
       (data @ [candle_at e symb now tf i k p])"
  by (subst gen_loop.simps) (simp add: Let_def)

lemma gen_loop_stop: "i < 0 \<Longrightarrow> gen_loop e symb now tf i k p data = data"
  by (subst gen_loop.simps) simp

lemma gen_loop_append:
  "gen_loop e symb now tf i k p data = data @ gen_loop e symb now tf i k p []"
proof (induction "nat (i + 1)" arbitrary: i k p data)
  case 0
  then have "i < 0" by simp
  then show ?case by (simp add: gen_loop_stop)
next
  case (Suc n)
  then have pos: "0 \<le> i" and n: "n = nat (i - 1 + 1)" by simp_all
  let ?c = "candle_at e symb now tf i k p"
  have "gen_loop e symb now tf i k p data =
          (data @ [?c]) @ gen_loop e symb now tf (i - 1) (k + 4) (close ?c) []"
    using Suc.hyps(1) [OF n, of "k + 4" "close ?c" "data @ [?c]"]
    by (simp only: gen_loop_step [OF pos])
  moreover have "gen_loop e symb now tf i k p [] =
          [?c] @ gen_loop e symb now tf (i - 1) (k + 4) (close ?c) []"
    using Suc.hyps(1) [OF n, of "k + 4" "close ?c" "[?c]"]
    by (simp only: gen_loop_step [OF pos] append_Nil)
  ultimately show ?case by simp
qed

lemma gen_loop_Cons:
  assumes "0 \<le> i"
  shows "gen_loop e symb now tf i k p [] =
     candle_at e symb now tf i k p #
       gen_loop e symb now tf (i - 1) (k + 4) (close (candle_at e symb now tf i k p)) []"
  using gen_loop_step [OF assms, of e symb now tf k p "[]"]
    gen_loop_append [of e symb now tf "i - 1" "k + 4" _ "[_]"] by simp


lemma gen_loop_length: "length (gen_loop e symb now tf i k p []) = nat (i + 1)"
proof (induction "nat (i + 1)" arbitrary: i k p)
  case 0
  then show ?case by (simp add: gen_loop_stop)
next
  case (Suc n)
  then have pos: "0 \<le> i" and n: "n = nat (i - 1 + 1)" by simp_all
  show ?case
    using Suc.hyps(1) [OF n] Suc.hyps(2) by (simp add: gen_loop_Cons [OF pos])
qed

lemma gen_loop_ohlc:
  assumes "random_ok e"
  shows "0 < p \<Longrightarrow> list_all ohlc_ok (gen_loop e symb now tf i k p [])"
proof (induction "nat (i + 1)" arbitrary: i k p)
  case 0
  then show ?case by (simp add: gen_loop_stop)
next
  case (Suc n)
  then have pos: "0 \<le> i" and n: "n = nat (i - 1 + 1)" by simp_all
  have "0 < close (candle_at e symb now tf i k p)"
    using Suc.prems by (rule candle_at_close_pos)
  then show ?case
    using Suc.hyps(1) [OF n] candle_at_ohlc [OF assms Suc.prems]
    by (simp add: gen_loop_Cons [OF pos])
qed

lemma gen_loop_pos:
  "0 < p \<Longrightarrow> list_all (\<lambda>c. 0 < open_price c \<and> 0 < close c) (gen_loop e symb now tf i k p [])"
proof (induction "nat (i + 1)" arbitrary: i k p)
  case 0
  then show ?case by (simp add: gen_loop_stop)
next
  case (Suc n)
  then have pos: "0 \<le> i" and n: "n = nat (i - 1 + 1)" by simp_all
  have c: "0 < close (candle_at e symb now tf i k p)"
    using Suc.prems by (rule candle_at_close_pos)
  show ?case
    using Suc.hyps(1) [OF n c] c Suc.prems
    by (simp add: gen_loop_Cons [OF pos] candle_at_open)
qed

lemma gen_loop_linked: "linked p (gen_loop e symb now tf i k p [])"
proof (induction "nat (i + 1)" arbitrary: i k p)
  case 0
  then show ?case by (simp add: gen_loop_stop)
next
  case (Suc n)
  then have pos: "0 \<le> i" and n: "n = nat (i - 1 + 1)" by simp_all
  show ?case
    using Suc.hyps(1) [OF n] by (simp add: gen_loop_Cons [OF pos] candle_at_open)
qed

lemma gen_loop_timestamp:
  "j < nat (i + 1) \<Longrightarrow>
     timestamp (gen_loop e symb now tf i k p [] ! j) =
       minus_number (Num now) (times (Num (i - int j)) (toNumber tf))"
proof (induction "nat (i + 1)" arbitrary: i k p j)
  case 0
  then show ?case by (simp add: gen_loop_stop)
next
  case (Suc n)
  then have pos: "0 \<le> i" and n: "n = nat (i - 1 + 1)" by simp_all
  show ?case
  proof (cases j)
    case 0
    then show ?thesis by (simp add: gen_loop_Cons [OF pos] candle_at_timestamp)
  next
    case (Suc j')
    then have "j' < nat (i - 1 + 1)" using Suc.prems by simp
    from Suc.hyps(1) [OF n this] show ?thesis
      using Suc by (simp add: gen_loop_Cons [OF pos] algebra_simps)
  qed
qed

lemma linked_hd: "linked p cs \<Longrightarrow> cs \<noteq> [] \<Longrightarrow> open_price (hd cs) = p"
  by (cases cs) simp_all

lemma linked_nth:
  "linked p cs \<Longrightarrow> Suc j < length cs \<Longrightarrow> open_price (cs ! Suc j) = close (cs ! j)"
proof (induction cs arbitrary: p j)
  case Nil
  then show ?case by simp
next
  case (Cons c cs)
  show ?case
  proof (cases j)
    case 0
    then show ?thesis using Cons.prems by (cases cs) simp_all
  next
    case (Suc j')
    then show ?thesis using Cons.prems Cons.IH [of "close c" j'] by simp
  qed
qed

lemma upper_char_not_lower: "upper_char c \<notin> set ''abcdefghijklmnopqrstuvwxyz''"
  by (simp add: upper_char_def)

lemma toUpperCase_no_lower: "set (toUpperCase s) \<inter> set ''abcdefghijklmnopqrstuvwxyz'' = {}"
  using upper_char_not_lower by (auto simp: toUpperCase_def simp del: set_simps)

lemma toUpperCase_not_inherited: "toUpperCase s \<notin> set objectPrototypeKeys"
proof
  assume a: "toUpperCase s \<in> set objectPrototypeKeys"
  then have "CHR ''o'' \<in> set (toUpperCase s) \<or> CHR ''e'' \<in> set (toUpperCase s)"
    unfolding objectPrototypeKeys_def by auto
  then show False using toUpperCase_no_lower [of s] by auto
qed

lemma price_or_starting_pos: "0 < price_or startingPrices k 100"
  by (simp add: price_or_def startingPrices_def)

lemma price_or_fallback_pos: "0 < price_or fallbackPrices k 100"
  by (simp add: price_or_def fallbackPrices_def)


lemma generate_length:
  "length (generateFallbackHistoricalData e now symb timeframe limit) = nat limit"
  by (simp add: generateFallbackHistoricalData_def gen_loop_length)

lemma generate_ohlc:
  "random_ok e \<Longrightarrow> list_all ohlc_ok (generateFallbackHistoricalData e now symb timeframe limit)"
  unfolding generateFallbackHistoricalData_def
  by (rule gen_loop_ohlc) (simp_all add: price_or_starting_pos)

lemma generate_pos:
  "list_all (\<lambda>c. 0 < open_price c \<and> 0 < close c)
     (generateFallbackHistoricalData e now symb timeframe limit)"
  unfolding generateFallbackHistoricalData_def
  by (rule gen_loop_pos) (rule price_or_starting_pos)

lemma generate_linked:
  "linked (price_or startingPrices (toUpperCase symb) 100)
     (generateFallbackHistoricalData e now symb timeframe limit)"
  unfolding generateFallbackHistoricalData_def by (rule gen_loop_linked)

lemma generate_timestamp:
  assumes "j < nat limit"
  shows "timestamp (generateFallbackHistoricalData e now symb timeframe limit ! j) =
     minus_number (Num now) (times (Num (limit - 1 - int j)) (toNumber (getTimeframeInMs timeframe)))"
  unfolding generateFallbackHistoricalData_def
  using assms by (simp add: gen_loop_timestamp)

lemma getTimeframeInMs_1h: "getTimeframeInMs ''1h'' = Own 3600000"
  by (simp add: getTimeframeInMs_def lookup_def timeframeMap_def or_default_def)

lemma getTimeframeInMs_constructor: "getTimeframeInMs ''constructor'' = Inherited"
  by (simp add: getTimeframeInMs_def lookup_def timeframeMap_def or_default_def
      objectPrototypeKeys_def)

lemma generate_timestamps_step:
  assumes "getTimeframeInMs timeframe = Own m" "Suc j < nat limit"
  shows "timestamp (generateFallbackHistoricalData e now symb timeframe limit ! j) =
           Num (now - (limit - 1 - int j) * m)
       \<and> timestamp (generateFallbackHistoricalData e now symb timeframe limit ! Suc j) =
           Num (now - (limit - 1 - int j) * m + m)"
  using assms by (simp add: generate_timestamp algebra_simps)

lemma getTimeframeInMs_own:
  "timeframe \<notin> set objectPrototypeKeys \<Longrightarrow> \<exists>m. 0 < m \<and> getTimeframeInMs timeframe = Own m"
  by (simp add: getTimeframeInMs_def lookup_def timeframeMap_def or_default_def)

lemma random_ok_utc_env: "random_ok utc_env"
  by (simp add: random_ok_def utc_env_def)

text \<open>
  Claim C10. In every sequence the fallback history generator produces, the first
  candle opens at the symbol's base price, every later candle opens at the close of
  the candle before it, and, the base price of every symbol being positive, every open
  and every close is strictly positive.
\<close>

theorem fallback_history_price_walk:
  assumes "cs = generateFallbackHistoricalData e now symb timeframe limit"
  shows "(cs \<noteq> [] \<longrightarrow> open_price (hd cs) = price_or startingPrices (toUpperCase symb) 100)
       \<and> (\<forall>j. Suc j < length cs \<longrightarrow> open_price (cs ! Suc j) = close (cs ! j))
       \<and> 0 < price_or startingPrices (toUpperCase symb) 100
       \<and> (\<forall>c \<in> set cs. 0 < open_price c \<and> 0 < close c)"
proof -
  have l: "linked (price_or startingPrices (toUpperCase symb) 100) cs"
    unfolding assms by (rule generate_linked)
  have p: "list_all (\<lambda>c. 0 < open_price c \<and> 0 < close c) cs"
    unfolding assms by (rule generate_pos)
  show ?thesis
    using linked_hd [OF l] linked_nth [OF l] price_or_starting_pos p
    by (simp add: list_all_iff)
qed

text \<open>The walk generated for three hourly BTCUSDT candles.\<close>

theorem fallback_history_price_walk_witness:
  "open_price (hd (generateFallbackHistoricalData utc_env 0 ''BTCUSDT'' ''1h'' 3)) = 42500
   \<and> open_price (generateFallbackHistoricalData utc_env 0 ''BTCUSDT'' ''1h'' 3 ! 1) =
       close (generateFallbackHistoricalData utc_env 0 ''BTCUSDT'' ''1h'' 3 ! 0)
   \<and> 0 < close (generateFallbackHistoricalData utc_env 0 ''BTCUSDT'' ''1h'' 3 ! 2)"
proof -
  let ?cs = "generateFallbackHistoricalData utc_env 0 ''BTCUSDT'' ''1h'' 3"
  have len: "length ?cs = 3" by (simp add: generate_length)
  then have ne: "?cs \<noteq> []" and mem: "?cs ! 2 \<in> set ?cs" by auto
  have base: "price_or startingPrices (toUpperCase ''BTCUSDT'') 100 = 42500"
    by (simp add: price_or_def startingPrices_def toUpperCase_def upper_char_def)
  show ?thesis
    using fallback_history_price_walk [OF refl, of utc_env 0 "''BTCUSDT''" "''1h''" 3]
      len ne mem base by simp
qed

text \<open>
  Claim C3. The candle timestamps should rise by the timeframe's duration, one hour for
  a timeframe that is not in the table. For the timeframe \<open>constructor\<close> the table
  read finds the property every object inherits, the default is not taken, and both
  timestamps of a two-candle history are \<open>NaN\<close>: they are not increasing and have
  no step. (For a timeframe that no object inherits, lemmas \<open>getTimeframeInMs_own\<close>
  and \<open>generate_timestamps_step\<close> give the constant step, and for every timeframe
  \<open>generate_ohlc\<close> gives the bounds on low and high.)
\<close>

theorem inherited_timeframe_timestamps:
  "map timestamp (generateFallbackHistoricalData e now symb ''constructor'' 2) = [NaN, NaN]"
  by (simp add: generateFallbackHistoricalData_def getTimeframeInMs_constructor
      gen_loop_Cons gen_loop_stop candle_at_timestamp)

section \<open>Historical data\<close>

lemma unknownsym_base: "price_or startingPrices (toUpperCase ''UNKNOWNSYM'') 100 = 100"
  by (simp add: price_or_def startingPrices_def toUpperCase_def upper_char_def)

lemma generate_last_timestamp:
  assumes "0 < limit"
  shows "timestamp (last (generateFallbackHistoricalData e now symb ''1h'' limit)) = Num now"
proof -
  let ?cs = "generateFallbackHistoricalData e now symb ''1h'' limit"
  have len: "length ?cs = nat limit" by (rule generate_length)
  then have "?cs \<noteq> []" using assms by auto
  then have "last ?cs = ?cs ! (nat limit - 1)" using len by (simp add: last_conv_nth)
  moreover have "nat limit - 1 < nat limit" using assms by simp
  ultimately show ?thesis
    using assms by (simp add: generate_timestamp getTimeframeInMs_1h)
qed

text \<open>
  Claim C4, as the code has it. In FALLBACK mode \<open>getHistoricalData\<close> of
  \<open>UNKNOWNSYM\<close>, \<open>1h\<close> and 50 returns the generator's 50 candles, oldest first and
  one hour apart; the last candle's timestamp is the generation time \<open>now\<close> itself,
  whatever the time of day; and the walk opens at the default base price 100.
\<close>

theorem fallback_history_unknown_symbol:
  assumes "\<not> isInitialized s"
  shows "getHistoricalData s e now ''UNKNOWNSYM'' ''1h'' 50 r =
           Inr (generateFallbackHistoricalData e now ''UNKNOWNSYM'' ''1h'' 50)
       \<and> length (generateFallbackHistoricalData e now ''UNKNOWNSYM'' ''1h'' 50) = 50
       \<and> (\<forall>j < 50. timestamp (generateFallbackHistoricalData e now ''UNKNOWNSYM'' ''1h'' 50 ! j) =
             Num (now - (49 - int j) * 3600000))
       \<and> timestamp (last (generateFallbackHistoricalData e now ''UNKNOWNSYM'' ''1h'' 50)) = Num now
       \<and> open_price (hd (generateFallbackHistoricalData e now ''UNKNOWNSYM'' ''1h'' 50)) = 100"
proof -
  let ?cs = "generateFallbackHistoricalData e now ''UNKNOWNSYM'' ''1h'' 50"
  have a: "getHistoricalData s e now ''UNKNOWNSYM'' ''1h'' 50 r = Inr ?cs"
    using assms by (simp add: getHistoricalData_def)
  have b: "length ?cs = 50" by (simp add: generate_length)
  have c: "\<forall>j < 50. timestamp (?cs ! j) = Num (now - (49 - int j) * 3600000)"
    by (simp add: generate_timestamp getTimeframeInMs_1h)
  have d: "timestamp (last ?cs) = Num now" by (simp add: generate_last_timestamp)
  have "?cs \<noteq> []" using b by auto
  then have e: "open_price (hd ?cs) = 100"
    using linked_hd [OF generate_linked, of e now "''UNKNOWNSYM''" "''1h''" 50]
    by (simp add: unknownsym_base)
  show ?thesis using a b c d e by blast
qed

text \<open>Generated at 01:30:00.000 UTC of the first day of the epoch.\<close>

theorem fallback_history_unknown_symbol_witness:
  "getHistoricalData initial utc_env 5400000 ''UNKNOWNSYM'' ''1h'' 50 FetchFails =
     Inr (generateFallbackHistoricalData utc_env 5400000 ''UNKNOWNSYM'' ''1h'' 50)
   \<and> length (generateFallbackHistoricalData utc_env 5400000 ''UNKNOWNSYM'' ''1h'' 50) = 50
   \<and> timestamp (generateFallbackHistoricalData utc_env 5400000 ''UNKNOWNSYM'' ''1h'' 50 ! 48) =
       Num 1800000
   \<and> timestamp (last (generateFallbackHistoricalData utc_env 5400000 ''UNKNOWNSYM'' ''1h'' 50)) =
       Num 5400000
   \<and> open_price (hd (generateFallbackHistoricalData utc_env 5400000 ''UNKNOWNSYM'' ''1h'' 50)) = 100"
proof -
  have f: "\<not> isInitialized initial" by (simp add: initial_def)
  show ?thesis
    using fallback_history_unknown_symbol [OF f, of utc_env 5400000 FetchFails] by simp
qed

text \<open>
  Claim C4 as stated fails: generated at 01:30, the last candle is stamped 01:30 and
  not 01:00, the most recent hour boundary.
\<close>

theorem last_candle_not_on_hour_boundary:
  "getHistoricalData initial utc_env 5400000 ''UNKNOWNSYM'' ''1h'' 50 FetchFails =
     Inr (generateFallbackHistoricalData utc_env 5400000 ''UNKNOWNSYM'' ''1h'' 50)
   \<and> timestamp (last (generateFallbackHistoricalData utc_env 5400000 ''UNKNOWNSYM'' ''1h'' 50))
       \<noteq> Num (5400000 - 5400000 mod 3600000)"
  by (simp add: getHistoricalData_def initial_def generate_last_timestamp)

text \<open>
  \<open>getHistoricalData\<close> returns a candle sequence for every symbol, timeframe and
  limit, whatever the remote service answers. In FALLBACK mode, when the kline request
  fails, and when it yields no candle, the result is the generator's history:
  \<open>limit\<close> candles (none for a negative limit), each within the Candle invariant when
  \<open>Math.random()\<close> stays in its range.
\<close>

lemma getHistoricalData_falls_back:
  "(\<exists>cs. getHistoricalData s e now symb timeframe limit r = Inr cs)
   \<and> (\<not> isInitialized s \<or> is_failure r \<or> r = Response ok (Payload None)
        \<or> r = Response ok (Payload (Some [])) \<longrightarrow>
        getHistoricalData s e now symb timeframe limit r =
          Inr (generateFallbackHistoricalData e now symb timeframe limit))
   \<and> length (generateFallbackHistoricalData e now symb timeframe limit) = nat limit
   \<and> (random_ok e \<longrightarrow> list_all ohlc_ok (generateFallbackHistoricalData e now symb timeframe limit))"
proof -
  have a: "\<exists>cs. getHistoricalData s e now symb timeframe limit r = Inr cs"
    by (simp add: getHistoricalData_def split: sum.split)
  have b: "\<not> isInitialized s \<or> is_failure r \<or> r = Response ok (Payload None)
        \<or> r = Response ok (Payload (Some [])) \<Longrightarrow>
        getHistoricalData s e now symb timeframe limit r =
          Inr (generateFallbackHistoricalData e now symb timeframe limit)"
    by (cases r rule: receive.cases) (auto simp: getHistoricalData_def getKlines_def)
  show ?thesis
    using a b generate_length generate_ohlc by blast
qed

text \<open>
  Claim C7. \<open>getHistoricalData\<close> should return the generator's full, well-formed
  history for any timeframe when the live source is not available. It never raises,
  but for the timeframe \<open>constructor\<close>, in FALLBACK mode as well as after a failed
  kline request, the history it returns has the timestamp \<open>NaN\<close> in both candles
  of a two-candle history: the sequence is not ordered by ascending timestamp.
\<close>

theorem inherited_timeframe_history:
  "getHistoricalData s e now symb ''constructor'' 2 FetchFails =
     Inr (generateFallbackHistoricalData e now symb ''constructor'' 2)
   \<and> map timestamp (generateFallbackHistoricalData e now symb ''constructor'' 2) = [NaN, NaN]"
proof -
  have "getHistoricalData s e now symb ''constructor'' 2 FetchFails =
     Inr (generateFallbackHistoricalData e now symb ''constructor'' 2)"
    by (simp add: getHistoricalData_def getKlines_def)
  moreover have
    "map timestamp (generateFallbackHistoricalData e now symb ''constructor'' 2) = [NaN, NaN]"
    by (simp add: generateFallbackHistoricalData_def getTimeframeInMs_constructor
        gen_loop_Cons gen_loop_stop candle_at_timestamp)
  ultimately show ?thesis by simp
qed

section \<open>Accessors\<close>

lemma fallback_price_table:
  "price_or fallbackPrices key 100 =
     (if key = ''BTCUSDT'' then 42500
      else if key = ''ETHUSDT'' then 2650
      else if key = ''ADAUSDT'' then 485 / 1000
      else if key = ''DOTUSDT'' then 785 / 100
      else 100)"
  by (simp add: price_or_def fallbackPrices_def)

lemma cachedPrice_pos: "cachedPrice s key = Some p \<Longrightarrow> 0 < p"
  by (auto simp: cachedPrice_def split: option.splits number.splits if_splits)

lemma getCurrentPrice_returns: "\<exists>p. getCurrentPrice s symb r = Inr p"
  by (simp add: getCurrentPrice_def split: option.split sum.split)

text \<open>
  Claim C1, as the code has it. \<open>getCurrentPrice\<close> never raises. With no cached
  price above zero, in FALLBACK mode or when the live request fails, it returns the
  fallback table's value for the upper-cased symbol (BTCUSDT 42500, ETHUSDT 2650,
  ADAUSDT 0.485, DOTUSDT 7.85), and 100 for a symbol that is not in the table. A price
  taken from the cache or from the table is strictly positive. A live reply without an
  error code is returned as it was parsed, whatever its sign.
\<close>

theorem getCurrentPrice_never_raises:
  "(\<exists>p. getCurrentPrice s symb r = Inr p)
   \<and> (cachedPrice s (toUpperCase symb) = None \<and> (\<not> isInitialized s \<or> is_failure r) \<longrightarrow>
        getCurrentPrice s symb r = Inr (price_or fallbackPrices (toUpperCase symb) 100))
   \<and> price_or fallbackPrices (toUpperCase symb) 100 =
       (if toUpperCase symb = ''BTCUSDT'' then 42500
        else if toUpperCase symb = ''ETHUSDT'' then 2650
        else if toUpperCase symb = ''ADAUSDT'' then 485 / 1000
        else if toUpperCase symb = ''DOTUSDT'' then 785 / 100
        else 100)
   \<and> (cachedPrice s (toUpperCase symb) \<noteq> None \<or> \<not> isInitialized s \<or> is_failure r \<longrightarrow>
        (\<exists>p. getCurrentPrice s symb r = Inr p \<and> 0 < p))
   \<and> (cachedPrice s (toUpperCase symb) = None \<and> isInitialized s
        \<and> r = Response ok (Payload live) \<longrightarrow>
        getCurrentPrice s symb r = Inr live)"
proof -
  have a: "\<exists>p. getCurrentPrice s symb r = Inr p"
    by (rule getCurrentPrice_returns)
  have b: "cachedPrice s (toUpperCase symb) = None \<and> (\<not> isInitialized s \<or> is_failure r) \<Longrightarrow>
        getCurrentPrice s symb r = Inr (price_or fallbackPrices (toUpperCase symb) 100)"
    by (cases r rule: receive.cases) (auto simp: getCurrentPrice_def)
  have c: "cachedPrice s (toUpperCase symb) \<noteq> None \<or> \<not> isInitialized s \<or> is_failure r \<Longrightarrow>
        \<exists>p. getCurrentPrice s symb r = Inr p \<and> 0 < p"
  proof (cases "cachedPrice s (toUpperCase symb)")
    case None
    assume "cachedPrice s (toUpperCase symb) \<noteq> None \<or> \<not> isInitialized s \<or> is_failure r"
    with None b show ?thesis by (simp add: price_or_fallback_pos)
  next
    case (Some p)
    then show ?thesis using cachedPrice_pos [OF Some] by (simp add: getCurrentPrice_def)
  qed
  have d: "cachedPrice s (toUpperCase symb) = None \<and> isInitialized s
        \<and> r = Response ok (Payload live) \<Longrightarrow>
        getCurrentPrice s symb r = Inr live"
    by (simp add: getCurrentPrice_def)
  show ?thesis
    using a b c d fallback_price_table [of "toUpperCase symb"] by blast
qed

lemma cachedPrice_initial: "cachedPrice initial key = None"
  by (simp add: cachedPrice_def initial_def)

text \<open>FALLBACK mode with nothing cached: a known and an unknown symbol.\<close>

theorem getCurrentPrice_never_raises_witness:
  "getCurrentPrice initial ''ethusdt'' FetchFails = Inr 2650
   \<and> getCurrentPrice initial ''XYZ'' (Response False (ErrorEnvelope ''Invalid symbol.'')) =
       Inr 100"
proof -
  have u: "toUpperCase ''ethusdt'' = ''ETHUSDT''" "toUpperCase ''XYZ'' = ''XYZ''"
    by (simp_all add: toUpperCase_def upper_char_def)
  have f: "\<not> isInitialized initial" by (simp add: initial_def)
  show ?thesis
    using getCurrentPrice_never_raises [of initial "''ethusdt''" FetchFails]
      getCurrentPrice_never_raises
        [of initial "''XYZ''" "Response False (ErrorEnvelope ''Invalid symbol.'')"]
      cachedPrice_initial f u
    by simp
qed

text \<open>
  Claim C1 as stated fails: in LIVE mode a reply whose price field reads \<open>0\<close> is
  returned as the price, and it is not strictly positive.
\<close>

theorem live_price_not_positive:
  "getCurrentPrice (initializeConnection initial ResponseOk 0) ''BTCUSDT''
     (Response True (Payload 0)) = Inr 0
   \<and> \<not> (0 :: real) < 0"
  by (simp add: getCurrentPrice_def initializeConnection_def cachedPrice_def initial_def)

text \<open>
  Claim C2. \<open>calculatePnL\<close> always gets a current price; for
  \<open>entry * qty \<noteq> 0\<close> it returns \<open>pnl = (current - entry) * qty\<close> for LONG,
  \<open>pnl = (entry - current) * qty\<close> for SHORT, and
  \<open>pnlPercent = pnl / (entry * qty) * 100\<close>. At the current price 110, LONG with
  entry 100 and quantity 2 gives 20 and 10 percent; at 90, SHORT with entry 100 and
  quantity 2 gives 20 and 10 percent.
\<close>

theorem calculatePnL_formula:
  "(\<exists>current. getCurrentPrice s symb r = Inr current)
   \<and> (getCurrentPrice s symb r = Inr cur \<and> entry * qty \<noteq> 0 \<longrightarrow>
      calculatePnL s symb LONG entry qty r =
        Inr \<lparr>pnl = (cur - entry) * qty,
             pnlPercent = Some ((cur - entry) * qty / (entry * qty) * 100),
             currentPrice = cur\<rparr>
      \<and> calculatePnL s symb SHORT entry qty r =
        Inr \<lparr>pnl = (entry - cur) * qty,
             pnlPercent = Some ((entry - cur) * qty / (entry * qty) * 100),
             currentPrice = cur\<rparr>)
   \<and> (getCurrentPrice s symb r = Inr 110 \<longrightarrow>
        calculatePnL s symb LONG 100 2 r =
          Inr \<lparr>pnl = 20, pnlPercent = Some 10, currentPrice = 110\<rparr>)
   \<and> (getCurrentPrice s symb r = Inr 90 \<longrightarrow>
        calculatePnL s symb SHORT 100 2 r =
          Inr \<lparr>pnl = 20, pnlPercent = Some 10, currentPrice = 90\<rparr>)"
  using getCurrentPrice_returns [of s symb r] by (simp add: calculatePnL_def)

text \<open>A live service that answers 110, 90 and 60.\<close>

theorem calculatePnL_formula_witness:
  "calculatePnL (initializeConnection initial ResponseOk 0) ''BTCUSDT'' LONG 100 2
     (Response True (Payload 110)) =
     Inr \<lparr>pnl = 20, pnlPercent = Some 10, currentPrice = 110\<rparr>
   \<and> calculatePnL (initializeConnection initial ResponseOk 0) ''BTCUSDT'' SHORT 100 2
       (Response True (Payload 90)) =
     Inr \<lparr>pnl = 20, pnlPercent = Some 10, currentPrice = 90\<rparr>
   \<and> calculatePnL (initializeConnection initial ResponseOk 0) ''BTCUSDT'' SHORT 50 4
       (Response True (Payload 60)) =
     Inr \<lparr>pnl = - 40, pnlPercent = Some (- 20), currentPrice = 60\<rparr>"
proof -
  let ?s = "initializeConnection initial ResponseOk 0"
  have g: "getCurrentPrice ?s ''BTCUSDT'' (Response True (Payload x)) = Inr x" for x
    by (simp add: getCurrentPrice_def initializeConnection_def cachedPrice_def initial_def)
  show ?thesis
    using calculatePnL_formula [of ?s "''BTCUSDT''" "Response True (Payload 110)" 110 100 2]
      calculatePnL_formula [of ?s "''BTCUSDT''" "Response True (Payload 90)" 90 100 2]
      calculatePnL_formula [of ?s "''BTCUSDT''" "Response True (Payload 60)" 60 50 4]
      g
    by simp
qed

lemma is_failure_receive: "is_failure r = (\<exists>err. receive r = Inl err)"
  by (cases r rule: receive.cases) simp_all

text \<open>
  Claim C6, as the code has it. For \<open>getTicker\<close>, \<open>getOrderBook\<close> and
  \<open>getSymbols\<close>, the failures the code detects end as one outcome, the error thrown
  to the caller, and none of them returns a fallback value: a rejected \<open>fetch\<close>, a
  body that is not JSON, a null body, an error envelope, and for \<open>getOrderBook\<close> and
  \<open>getSymbols\<close> a body without the array they read. Every other body is a success,
  whatever the status of the response (\<open>ok\<close>) and whatever its fields:
  \<open>getTicker\<close> returns the quote as it was parsed, \<open>NaN\<close> included.
\<close>

theorem accessor_outcomes:
  "getTicker symb FetchFails now = Inl NetworkError
   \<and> getTicker symb (Response ok NotJson) now = Inl SyntaxError
   \<and> getTicker symb (Response ok JsonNull) now = Inl TypeError
   \<and> getTicker symb (Response ok (ErrorEnvelope msg)) now = Inl (ApiError msg)
   \<and> getTicker symb (Response ok (Payload d)) now =
       Inr \<lparr>symbol = body_symbol d, price = lastPrice d, change = priceChange d,
            changePercent = priceChangePercent d, ticker_volume = body_volume d,
            ticker_timestamp = now\<rparr>
   \<and> getOrderBook symb limit FetchFails now = Inl NetworkError
   \<and> getOrderBook symb limit (Response ok NotJson) now = Inl SyntaxError
   \<and> getOrderBook symb limit (Response ok JsonNull) now = Inl TypeError
   \<and> getOrderBook symb limit (Response ok (ErrorEnvelope msg)) now = Inl (ApiError msg)
   \<and> getOrderBook symb limit
         (Response ok (Payload \<lparr>body_bids = None, body_asks = oas\<rparr>)) now = Inl TypeError
   \<and> getOrderBook symb limit
         (Response ok (Payload \<lparr>body_bids = obs, body_asks = None\<rparr>)) now = Inl TypeError
   \<and> getOrderBook symb limit
         (Response ok (Payload \<lparr>body_bids = Some bs, body_asks = Some as\<rparr>)) now =
       Inr \<lparr>depth_symbol = toUpperCase symb, bids = bs, asks = as, depth_timestamp = now\<rparr>
   \<and> getSymbols FetchFails = Inl NetworkError
   \<and> getSymbols (Response ok NotJson) = Inl SyntaxError
   \<and> getSymbols (Response ok JsonNull) = Inl TypeError
   \<and> getSymbols (Response ok (ErrorEnvelope msg)) = Inl (ApiError msg)
   \<and> getSymbols (Response ok (Payload None)) = Inl TypeError
   \<and> getSymbols (Response ok (Payload (Some symbols))) =
       Inr (map fst (filter (\<lambda>entry. snd entry = ''TRADING'') symbols))"
proof -
  have t: "getTicker symb FetchFails now = Inl NetworkError
      \<and> getTicker symb (Response ok NotJson) now = Inl SyntaxError
      \<and> getTicker symb (Response ok JsonNull) now = Inl TypeError
      \<and> getTicker symb (Response ok (ErrorEnvelope msg)) now = Inl (ApiError msg)
      \<and> getTicker symb (Response ok (Payload d)) now =
          Inr \<lparr>symbol = body_symbol d, price = lastPrice d, change = priceChange d,
               changePercent = priceChangePercent d, ticker_volume = body_volume d,
               ticker_timestamp = now\<rparr>"
    by (simp add: getTicker_def)
  have o: "getOrderBook symb limit FetchFails now = Inl NetworkError
      \<and> getOrderBook symb limit (Response ok NotJson) now = Inl SyntaxError
      \<and> getOrderBook symb limit (Response ok JsonNull) now = Inl TypeError
      \<and> getOrderBook symb limit (Response ok (ErrorEnvelope msg)) now = Inl (ApiError msg)
      \<and> getOrderBook symb limit
            (Response ok (Payload \<lparr>body_bids = None, body_asks = oas\<rparr>)) now = Inl TypeError
      \<and> getOrderBook symb limit
            (Response ok (Payload \<lparr>body_bids = obs, body_asks = None\<rparr>)) now = Inl TypeError
      \<and> getOrderBook symb limit
            (Response ok (Payload \<lparr>body_bids = Some bs, body_asks = Some as\<rparr>)) now =
          Inr \<lparr>depth_symbol = toUpperCase symb, bids = bs, asks = as, depth_timestamp = now\<rparr>"
    by (simp add: getOrderBook_def split: option.split)
  have y: "getSymbols FetchFails = Inl NetworkError
      \<and> getSymbols (Response ok NotJson) = Inl SyntaxError
      \<and> getSymbols (Response ok JsonNull) = Inl TypeError
      \<and> getSymbols (Response ok (ErrorEnvelope msg)) = Inl (ApiError msg)
      \<and> getSymbols (Response ok (Payload None)) = Inl TypeError
      \<and> getSymbols (Response ok (Payload (Some symbols))) =
          Inr (map fst (filter (\<lambda>entry. snd entry = ''TRADING'') symbols))"
    by (simp add: getSymbols_def)
  show ?thesis using t o y by simp
qed

text \<open>
  Claim C6 as stated fails: a response with a non-success status whose JSON body has no
  \<open>code\<close> and none of the ticker's fields (such as \<open>{"message": "Forbidden"}\<close>) is
  not treated as a failure; \<open>getTicker\<close> returns a quote without a symbol whose
  numbers are all \<open>NaN\<close>, and no error reaches the caller.
\<close>

theorem malformed_ticker_is_no_error:
  "getTicker ''BTCUSDT''
     (Response False
        (Payload \<lparr>body_symbol = None, lastPrice = NaN, priceChange = NaN,
                  priceChangePercent = NaN, body_volume = NaN\<rparr>)) 0 =
     Inr \<lparr>symbol = None, price = NaN, change = NaN, changePercent = NaN,
          ticker_volume = NaN, ticker_timestamp = 0\<rparr>"
  by (simp add: getTicker_def)

section \<open>Subscriptions and timers\<close>

subsection \<open>The two branches of a subscribe call\<close>

lemma subscribeToTicker_registered:
  assumes "tickerSubjects s (toUpperCase symb) = Some r"
  shows "subscribeToTicker s symb now = (s, r)"
  using assms by (simp add: subscribeToTicker_def)

lemma subscribeToTicker_new:
  assumes "tickerSubjects s (toUpperCase symb) = None"
  shows "subscribeToTicker s symb now =
     (s\<lparr>tickerValues := tickerValues s @ [placeholder (toUpperCase symb) now],
        tickerSubjects := (tickerSubjects s)(toUpperCase symb \<mapsto> length (tickerValues s)),
        timers := timers s @ [TickerTimer symb (length (tickerValues s)) updateInterval]\<rparr>,
      length (tickerValues s))"
  using assms by (simp add: subscribeToTicker_def Let_def)

lemma subscribeToCandles_registered:
  assumes "candleSubjects s (toUpperCase symb @ ''_'' @ interval) = Some r"
  shows "subscribeToCandles s symb interval = (s, r)"
  using assms by (simp add: subscribeToCandles_def)

lemma subscribeToCandles_new:
  assumes "candleSubjects s (toUpperCase symb @ ''_'' @ interval) = None"
  shows "subscribeToCandles s symb interval =
     (s\<lparr>candleValues := candleValues s @ [[]],
        candleSubjects := (candleSubjects s)
          (toUpperCase symb @ ''_'' @ interval \<mapsto> length (candleValues s)),
        timers := timers s @
          [CandleTimer symb interval (length (candleValues s)) (updateInterval * 5)]\<rparr>,
      length (candleValues s))"
  using assms by (simp add: subscribeToCandles_def Let_def)

lemma subscribeToTicker_twice:
  assumes "toUpperCase symb' = toUpperCase symb"
  shows "subscribeToTicker (fst (subscribeToTicker s symb now)) symb' now' =
     (fst (subscribeToTicker s symb now), snd (subscribeToTicker s symb now))"
proof (cases "tickerSubjects s (toUpperCase symb)")
  case None
  show ?thesis
    by (simp add: subscribeToTicker_new [OF None] subscribeToTicker_registered assms)
next
  case (Some r)
  show ?thesis
    by (simp add: subscribeToTicker_registered [OF Some] subscribeToTicker_registered assms Some)
qed

lemma subscribeToCandles_twice:
  assumes "toUpperCase symb' = toUpperCase symb"
  shows "subscribeToCandles (fst (subscribeToCandles s symb interval)) symb' interval =
     (fst (subscribeToCandles s symb interval), snd (subscribeToCandles s symb interval))"
proof (cases "candleSubjects s (toUpperCase symb @ ''_'' @ interval)")
  case None
  show ?thesis
    by (simp add: subscribeToCandles_new [OF None] subscribeToCandles_registered assms)
next
  case (Some r)
  then have "candleSubjects s (toUpperCase symb' @ ''_'' @ interval) = Some r"
    using assms by simp
  then show ?thesis
    by (simp add: subscribeToCandles_registered [OF Some] subscribeToCandles_registered)
qed

subsection \<open>Timers and registered keys\<close>

lemma registered_mono_ticker:
  "registered s k \<Longrightarrow> registered (s\<lparr>tickerValues := vs, tickerSubjects := (tickerSubjects s)(key \<mapsto> r), timers := ts\<rparr>) k"
  by (cases k) simp_all

lemma registered_mono_candle:
  "registered s k \<Longrightarrow> registered (s\<lparr>candleValues := vs, candleSubjects := (candleSubjects s)(key \<mapsto> r), timers := ts\<rparr>) k"
  by (cases k) simp_all

lemma registered_key_in_timers:
  "list_all (\<lambda>t. registered s (timer_key t)) ts \<Longrightarrow> \<not> registered s k \<Longrightarrow> k \<notin> timer_key ` set ts"
  by (auto simp: list_all_iff)

lemma subscribeToTicker_timers_registered:
  assumes "timers_registered s"
  shows "timers_registered (fst (subscribeToTicker s symb now))"
proof (cases "tickerSubjects s (toUpperCase symb)")
  case None
  then have n: "\<not> registered s (TickerKey (toUpperCase symb))" by simp
  have "TickerKey (toUpperCase symb) \<notin> timer_key ` set (timers s)"
    using assms n registered_key_in_timers unfolding timers_registered_def by blast
  moreover have "list_all (\<lambda>t. registered (s\<lparr>tickerValues := vs, tickerSubjects := (tickerSubjects s)(key \<mapsto> r), timers := ts\<rparr>) (timer_key t)) (timers s)" for vs key r ts
    using assms registered_mono_ticker unfolding timers_registered_def list_all_iff by blast
  ultimately show ?thesis
    using assms by (simp add: subscribeToTicker_new [OF None] timers_registered_def)
next
  case (Some r)
  then show ?thesis using assms by (simp add: subscribeToTicker_registered [OF Some])
qed

lemma subscribeToCandles_timers_registered:
  assumes "timers_registered s"
  shows "timers_registered (fst (subscribeToCandles s symb interval))"
proof (cases "candleSubjects s (toUpperCase symb @ ''_'' @ interval)")
  case None
  then have n: "\<not> registered s (CandleKey (toUpperCase symb @ ''_'' @ interval))" by simp
  have "CandleKey (toUpperCase symb @ ''_'' @ interval) \<notin> timer_key ` set (timers s)"
    using assms n registered_key_in_timers unfolding timers_registered_def by blast
  moreover have "list_all (\<lambda>t. registered (s\<lparr>candleValues := vs, candleSubjects := (candleSubjects s)(key \<mapsto> r), timers := ts\<rparr>) (timer_key t)) (timers s)" for vs key r ts
    using assms registered_mono_candle unfolding timers_registered_def list_all_iff by blast
  ultimately show ?thesis
    using assms by (simp add: subscribeToCandles_new [OF None] timers_registered_def)
next
  case (Some r)
  then show ?thesis using assms by (simp add: subscribeToCandles_registered [OF Some])
qed

lemma fireTickerTimer_unchanged:
  "tickerSubjects (fireTickerTimer s t r now) = tickerSubjects s"
  "candleSubjects (fireTickerTimer s t r now) = candleSubjects s"
  "timers (fireTickerTimer s t r now) = timers s"
  "candleValues (fireTickerTimer s t r now) = candleValues s"
  "length (tickerValues (fireTickerTimer s t r now)) = length (tickerValues s)"
  by (simp_all add: fireTickerTimer_def split: timer.split sum.split)

lemma fireCandleTimer_unchanged:
  "tickerSubjects (fireCandleTimer s t r) = tickerSubjects s"
  "candleSubjects (fireCandleTimer s t r) = candleSubjects s"
  "timers (fireCandleTimer s t r) = timers s"
  "tickerValues (fireCandleTimer s t r) = tickerValues s"
  "length (candleValues (fireCandleTimer s t r)) = length (candleValues s)"
  by (simp_all add: fireCandleTimer_def split: timer.split sum.split)

lemma registered_cong:
  "tickerSubjects s' = tickerSubjects s \<Longrightarrow> candleSubjects s' = candleSubjects s \<Longrightarrow>
     registered s' k = registered s k"
  by (cases k) simp_all

lemma timers_registered_cong:
  "tickerSubjects s' = tickerSubjects s \<Longrightarrow> candleSubjects s' = candleSubjects s \<Longrightarrow>
     timers s' = timers s \<Longrightarrow> timers_registered s' = timers_registered s"
  by (simp add: timers_registered_def registered_cong [of s' s])

lemma step_timers_registered:
  assumes "timers_registered s" "\<not> is_cleanup ev"
  shows "timers_registered (step s ev)"
proof (cases ev)
  case (SubscribeToTicker symb now)
  then show ?thesis using assms by (simp add: subscribeToTicker_timers_registered)
next
  case (SubscribeToCandles symb interval)
  then show ?thesis using assms by (simp add: subscribeToCandles_timers_registered)
next
  case Cleanup
  then show ?thesis using assms by simp
next
  case (TickerRound n r now)
  then show ?thesis
    using assms timers_registered_cong [OF fireTickerTimer_unchanged(1-3)] by simp
next
  case (CandleRound n r)
  then show ?thesis
    using assms timers_registered_cong [OF fireCandleTimer_unchanged(1-3)] by simp
qed

lemma run_timers_registered:
  "timers_registered s \<Longrightarrow> list_all (\<lambda>ev. \<not> is_cleanup ev) evs \<Longrightarrow> timers_registered (run s evs)"
  unfolding run_def
  by (induction evs arbitrary: s) (simp_all add: step_timers_registered)

lemma distinct_keys_filter:
  "distinct (map f xs) \<Longrightarrow> length (filter (\<lambda>x. f x = k) xs) \<le> 1"
proof (induction xs)
  case Nil
  then show ?case by simp
next
  case (Cons x xs)
  show ?case
  proof (cases "f x = k")
    case True
    then have "k \<notin> f ` set xs" using Cons.prems by simp
    then have "filter (\<lambda>x. f x = k) xs = []" by (auto simp: filter_empty_conv)
    then show ?thesis using True by simp
  next
    case False
    then show ?thesis using Cons by simp
  qed
qed

lemma timers_registered_at_most_one:
  "timers_registered s \<Longrightarrow> length (timers_of s k) \<le> 1"
  unfolding timers_registered_def timers_of_def
  using distinct_keys_filter [of timer_key "timers s" k] by simp

lemma seed_timers: "timers (seed now s d) = timers s"
  by (simp add: seed_def Let_def split: prod.split)

lemma initializeFallbackData_timers: "timers (initializeFallbackData s now) = timers s"
  by (simp add: initializeFallbackData_def fallbackData_def seed_timers)

lemma initializeConnection_timers: "timers (initializeConnection s p now) = timers s"
  by (cases p) (simp_all add: initializeConnection_def initializeFallbackData_timers)

lemma started_timers_registered: "timers_registered (initializeConnection initial p now)"
proof -
  have "timers (initializeConnection initial p now) = []"
    by (simp add: initializeConnection_timers initial_def)
  then show ?thesis by (simp add: timers_registered_def)
qed


text \<open>
  Claim C8, as the code has it. As long as \<open>cleanup\<close> is not called, every
  subscription key has at most one polling timer, however many subscribe calls and timer
  rounds there are. In every state, a second \<open>subscribeToTicker\<close> for the same symbol
  up to case, or a second \<open>subscribeToCandles\<close> for the same symbol and interval,
  changes nothing (no timer, no subject) and returns the subject of the first call.
\<close>

theorem one_timer_per_key:
  "(list_all (\<lambda>ev. \<not> is_cleanup ev) evs \<longrightarrow>
      length (timers_of (run (initializeConnection initial p now0) evs) k) \<le> 1)
   \<and> (toUpperCase symb' = toUpperCase symb \<longrightarrow>
        subscribeToTicker (fst (subscribeToTicker s symb now)) symb' now' =
          (fst (subscribeToTicker s symb now), snd (subscribeToTicker s symb now)))
   \<and> (toUpperCase symb' = toUpperCase symb \<longrightarrow>
        subscribeToCandles (fst (subscribeToCandles s symb interval)) symb' interval =
          (fst (subscribeToCandles s symb interval), snd (subscribeToCandles s symb interval)))"
  using run_timers_registered [OF started_timers_registered, of evs p now0]
    timers_registered_at_most_one [of "run (initializeConnection initial p now0) evs" k]
    subscribeToTicker_twice [of symb' symb s now now']
    subscribeToCandles_twice [of symb' symb s interval]
  by blast

lemma toUpperCase_btcusdt:
  "toUpperCase ''btcusdt'' = ''BTCUSDT''" "toUpperCase ''BTCUSDT'' = ''BTCUSDT''"
  by (simp_all add: toUpperCase_def upper_char_def)

text \<open>Two callers for the BTCUSDT ticker and two for its one-minute candles.\<close>

theorem one_timer_per_key_witness:
  "length (timers_of (run (initializeConnection initial ResponseOk 0)
       [SubscribeToTicker ''btcusdt'' 1, TickerRound 0 FetchFails 2,
        SubscribeToTicker ''BTCUSDT'' 3, SubscribeToCandles ''btcusdt'' ''1m'',
        SubscribeToCandles ''BTCUSDT'' ''1m''])
     (TickerKey ''BTCUSDT'')) \<le> 1
   \<and> subscribeToTicker (fst (subscribeToTicker initial ''btcusdt'' 1)) ''BTCUSDT'' 3 =
       (fst (subscribeToTicker initial ''btcusdt'' 1), snd (subscribeToTicker initial ''btcusdt'' 1))
   \<and> subscribeToCandles (fst (subscribeToCandles initial ''btcusdt'' ''1m'')) ''BTCUSDT'' ''1m'' =
       (fst (subscribeToCandles initial ''btcusdt'' ''1m''),
        snd (subscribeToCandles initial ''btcusdt'' ''1m''))"
  using one_timer_per_key
    [of "[SubscribeToTicker ''btcusdt'' 1, TickerRound 0 FetchFails 2,
          SubscribeToTicker ''BTCUSDT'' 3, SubscribeToCandles ''btcusdt'' ''1m'',
          SubscribeToCandles ''BTCUSDT'' ''1m'']"
        ResponseOk 0 "TickerKey ''BTCUSDT''" "''BTCUSDT''" "''btcusdt''" initial 1 3 "''1m''"]
    toUpperCase_btcusdt
  by simp

text \<open>
  Claim C8 as stated fails: \<open>cleanup\<close> forgets the key and leaves its timer running,
  so the next subscribe call starts a second timer for the same key.
\<close>

theorem two_timers_after_cleanup:
  "timers_of
     (run (initializeConnection initial ResponseOk 0)
        [SubscribeToTicker ''BTCUSDT'' 1, Cleanup, SubscribeToTicker ''BTCUSDT'' 2])
     (TickerKey ''BTCUSDT'') =
   [TickerTimer ''BTCUSDT'' 0 2000, TickerTimer ''BTCUSDT'' 1 2000]"
  by (simp add: run_def subscribeToTicker_def cleanup_def initial_def toUpperCase_btcusdt
      updateInterval_def Let_def timers_of_def initializeConnection_def)


subsection \<open>Global reset\<close>

lemma currentValue_append: "currentValue (vs @ [v]) (length vs) = Some v"
  by (simp add: currentValue_def)




text \<open>
  Claim C5, as the code has it. \<open>cleanup\<close> empties both maps and leaves every timer
  running. A \<open>subscribeToTicker\<close> that follows, for any symbol, creates a new subject
  (no subject that existed before has its reference), adds a timer for it, and the
  first value its stream emits is the placeholder with price zero.
\<close>

theorem cleanup_keeps_timers:
  "tickerSubjects (cleanup s) = Map.empty
   \<and> candleSubjects (cleanup s) = Map.empty
   \<and> timers (cleanup s) = timers s
   \<and> snd (subscribeToTicker (cleanup s) symb now) = length (tickerValues s)
   \<and> tickerValues (fst (subscribeToTicker (cleanup s) symb now)) =
       tickerValues s @ [placeholder (toUpperCase symb) now]
   \<and> currentValue (tickerValues (fst (subscribeToTicker (cleanup s) symb now)))
         (snd (subscribeToTicker (cleanup s) symb now)) =
       Some \<lparr>symbol = Some (toUpperCase symb), price = Num 0, change = Num 0,
             changePercent = Num 0, ticker_volume = Num 0, ticker_timestamp = now\<rparr>
   \<and> timers (fst (subscribeToTicker (cleanup s) symb now)) =
       timers s @ [TickerTimer symb (length (tickerValues s)) updateInterval]"
proof -
  have n: "tickerSubjects (cleanup s) (toUpperCase symb) = None"
    by (simp add: cleanup_def)
  have v: "tickerValues (cleanup s) = tickerValues s" and t: "timers (cleanup s) = timers s"
    by (simp_all add: cleanup_def)
  show ?thesis
    unfolding subscribeToTicker_new [OF n] v t
    by (simp add: currentValue_append) (simp add: cleanup_def placeholder_def)
qed

text \<open>
  Claim C5 as stated fails: after \<open>cleanup\<close> the ticker timer and the candle timer
  of BTCUSDT are still running.
\<close>

theorem timers_survive_cleanup:
  "timers (run (initializeConnection initial ResponseOk 0)
      [SubscribeToTicker ''BTCUSDT'' 1, SubscribeToCandles ''BTCUSDT'' ''1m'', Cleanup]) =
     [TickerTimer ''BTCUSDT'' 0 2000, CandleTimer ''BTCUSDT'' ''1m'' 0 10000]"
  by (simp add: run_def subscribeToTicker_def subscribeToCandles_def cleanup_def initial_def
      toUpperCase_btcusdt updateInterval_def Let_def initializeConnection_def)

subsection \<open>Seeded symbols\<close>







































end
